theory Spec2Isabelle
  imports Main
begin

section \<open>The host and GPU interfaces that plugin.cpp calls\<close>

text \<open>
  plugin.cpp is written against the VapourSynth 4 API (VapourSynth4.h, VSHelper4.h) and
  against ncnn's GPU interface. Neither belongs to this repository; the parts that
  \<open>waifu2xCreate\<close>, \<open>waifu2xFree\<close> and \<open>filter\<close> call are written down here as
  those interfaces document them.
\<close>

datatype VSColorFamily = cfUndefined | cfGray | cfRGB | cfYUV

datatype VSSampleType = stInteger | stFloat

record VSVideoFormat =
  colorFamily :: VSColorFamily
  sampleType :: VSSampleType
  bitsPerSample :: int

record VSVideoInfo =
  format :: VSVideoFormat
  width :: int
  height :: int

text \<open>
  A node is an upstream clip with its video info, or the node that the text plugin
  returns for a clip and a text (the overlay keeps the clip's video info).
\<close>

datatype VSNode = Clip VSVideoInfo | TextOverlay VSNode string

fun getVideoInfo :: "VSNode \<Rightarrow> VSVideoInfo" where
  "getVideoInfo (Clip v) = v"
| "getVideoInfo (TextOverlay n t) = getVideoInfo n"

text \<open>VSHelper4.h: a format is constant when both dimensions and the colour family are known.\<close>

definition isConstantVideoFormat :: "VSVideoInfo \<Rightarrow> bool" where
  "isConstantVideoFormat v \<longleftrightarrow> height v > 0 \<and> width v > 0 \<and> colorFamily (format v) \<noteq> cfUndefined"

text \<open>
  The argument map \<open>in\<close>. The keys and their types are fixed by the signature that
  \<open>VapourSynthPluginInit2\<close> registers (\<open>clip:vnode\<close>, and ten optional \<open>int\<close> keys), so
  the map is a record with one optional 64-bit integer per key; \<open>None\<close> is an absent key.
\<close>

record VSMap_in =
  arg_clip :: VSNode
  arg_noise :: "int option"
  arg_scale :: "int option"
  arg_tile_w :: "int option"
  arg_tile_h :: "int option"
  arg_model :: "int option"
  arg_gpu_id :: "int option"
  arg_gpu_thread :: "int option"
  arg_tta :: "int option"
  arg_fp32 :: "int option"
  arg_list_gpu :: "int option"

text \<open>
  \<open>mapGetInt(in, key, 0, &err)\<close>: the value and \<open>err = 0\<close> when the key is present;
  \<open>0\<close> and a non-zero \<open>err\<close> when it is not. The pair is (returned value, err is set).
\<close>

definition mapGetInt :: "int option \<Rightarrow> int \<times> bool" where
  "mapGetInt x = (case x of None \<Rightarrow> (0, True) | Some v \<Rightarrow> (v, False))"

text \<open>\<open>mapGetIntSaturated\<close> is \<open>mapGetInt\<close> with the 64-bit value saturated to \<open>int\<close>.\<close>

definition int64ToIntS :: "int \<Rightarrow> int" where
  "int64ToIntS v = (if v > 2147483647 then 2147483647 else if v < - 2147483648 then - 2147483648 else v)"

definition mapGetIntSaturated :: "int option \<Rightarrow> int \<times> bool" where
  "mapGetIntSaturated x = (case mapGetInt x of (v, err) \<Rightarrow> (int64ToIntS v, err))"

text \<open>ncnn: one \<open>GpuInfo\<close> per device; \<open>compute_queue_count\<close> is a \<open>uint32_t\<close>.\<close>

record GpuInfo =
  device_name :: string
  compute_queue_count :: nat

text \<open>
  What the process finds around it: whether ncnn can create its Vulkan instance, the
  devices, the default device index, the plugin's own path, the files that can be opened
  for reading, and the error (if any) with which invoking the text plugin ends.
\<close>

record environment =
  gpu_instance_available :: bool
  gpus :: "GpuInfo list"
  default_gpu_index :: int
  plugin_path :: string
  files :: "string list"
  text_plugin_error :: "string option"

definition get_gpu_count :: "environment \<Rightarrow> int" where
  "get_gpu_count env = int (length (gpus env))"

definition get_gpu_info :: "environment \<Rightarrow> int \<Rightarrow> GpuInfo" where
  "get_gpu_info env i = gpus env ! nat i"

text \<open>\<open>vsapi->invoke(text plugin, "Text", args)\<close>: the returned map holds an error or a clip.\<close>

definition invoke_Text :: "environment \<Rightarrow> VSNode \<Rightarrow> string \<Rightarrow> string + VSNode" where
  "invoke_Text env n t = (case text_plugin_error env of Some e \<Rightarrow> Inl e | None \<Rightarrow> Inr (TextOverlay n t))"

text \<open>\<open>std::ifstream ifs{path}; ifs.is_open()\<close>.\<close>

definition is_open :: "environment \<Rightarrow> string \<Rightarrow> bool" where
  "is_open env path = List.member (files env) path"

section \<open>The process-wide GPU instance count\<close>

text \<open>
  \<open>static std::atomic<int> numGPUInstances{0}\<close>, together with whether ncnn's GPU
  instance currently exists.
\<close>

record gpu_state =
  numGPUInstances :: int
  gpu_instance :: bool

text \<open>\<open>ncnn::create_gpu_instance()\<close> returns 0 on success (also when the instance exists already).\<close>

definition create_gpu_instance :: "environment \<Rightarrow> gpu_state \<Rightarrow> int \<times> gpu_state" where
  "create_gpu_instance env s =
     (if gpu_instance_available env then (0, s\<lparr>gpu_instance := True\<rparr>) else (- 1, s))"

definition destroy_gpu_instance :: "gpu_state \<Rightarrow> gpu_state" where
  "destroy_gpu_instance s = s\<lparr>gpu_instance := False\<rparr>"

text \<open>
  The statement \<open>if (--numGPUInstances == 0) ncnn::destroy_gpu_instance();\<close>, which
  plugin.cpp repeats at lines 90, 181, 191, 200 and 272.
\<close>

definition dec_numGPUInstances :: "gpu_state \<Rightarrow> gpu_state" where
  "dec_numGPUInstances s =
     (let s' = s\<lparr>numGPUInstances := numGPUInstances s - 1\<rparr>
      in if numGPUInstances s' = 0 then destroy_gpu_instance s' else s')"

section \<open>Strings\<close>

text \<open>\<open>std::to_string\<close> on an integer: decimal digits, a minus sign for a negative value.\<close>

fun digits_of :: "nat \<Rightarrow> string" where
  "digits_of n = (if n < 10 then [char_of (48 + n)] else digits_of (n div 10) @ [char_of (48 + n mod 10)])"

definition to_string :: "int \<Rightarrow> string" where
  "to_string i = (if i < 0 then CHR ''-'' # digits_of (nat (- i)) else digits_of (nat i))"

text \<open>\<open>s.rfind(c)\<close>: the last index of \<open>c\<close>, or \<open>npos\<close> (here \<open>None\<close>).\<close>

fun rfind :: "string \<Rightarrow> char \<Rightarrow> nat option" where
  "rfind [] c = None"
| "rfind (x # xs) c =
     (case rfind xs c of
        Some i \<Rightarrow> Some (Suc i)
      | None \<Rightarrow> if x = c then Some 0 else None)"

text \<open>\<open>s.substr(0, n)\<close>: the first \<open>n\<close> characters, the whole string when \<open>n\<close> is \<open>npos\<close>.\<close>

definition substr0 :: "string \<Rightarrow> nat option \<Rightarrow> string" where
  "substr0 s n = (case n of None \<Rightarrow> s | Some k \<Rightarrow> take k s)"

section \<open>waifu2xCreate\<close>

text \<open>The locals that lines 112 to 139 read from the argument map.\<close>

record options =
  noise :: int
  scale :: int
  tile_w :: int
  tile_h :: int
  model :: int
  gpuId :: int
  gpuThread :: int
  tta :: bool
  fp32 :: bool

definition read_options :: "environment \<Rightarrow> VSVideoInfo \<Rightarrow> VSMap_in \<Rightarrow> options" where
  "read_options env v a =
     \<lparr> noise = fst (mapGetIntSaturated (arg_noise a)),
       scale = (case mapGetIntSaturated (arg_scale a) of (x, err) \<Rightarrow> if err then 2 else x),
       tile_w = (case mapGetIntSaturated (arg_tile_w a) of (x, err) \<Rightarrow> if err then max (width v) 32 else x),
       tile_h = (case mapGetIntSaturated (arg_tile_h a) of (x, err) \<Rightarrow> if err then max (height v) 32 else x),
       model = (case mapGetIntSaturated (arg_model a) of (x, err) \<Rightarrow> if err then 2 else x),
       gpuId = (case mapGetIntSaturated (arg_gpu_id a) of (x, err) \<Rightarrow> if err then default_gpu_index env else x),
       gpuThread = (case mapGetIntSaturated (arg_gpu_thread a) of (x, err) \<Rightarrow> if err then 2 else x),
       tta = (fst (mapGetInt (arg_tta a)) \<noteq> 0),
       fp32 = (fst (mapGetInt (arg_fp32 a)) \<noteq> 0) \<rparr>"

text \<open>
  The \<open>const char*\<close> values thrown inside the \<open>try\<close> block, one constructor per
  \<open>throw\<close>, in source order. \<open>GpuThreadRange\<close> carries the queue count that its
  message is built from.
\<close>

datatype error =
    UnsupportedFormat
  | GpuInstanceFailed
  | NoiseRange
  | ScaleRange
  | TileWidth
  | TileHeight
  | ModelRange
  | OnlyCunetScale1
  | InvalidGpu
  | GpuThreadRange nat
  | ModelLoad

text \<open>
  The characters that the handler at line 269 finds behind the thrown pointer. Every
  \<open>throw\<close> but one has a string literal as its operand. The operand at line 163 is the
  \<open>c_str()\<close> of a temporary \<open>std::string\<close>, and that string is destroyed while the
  stack unwinds, before the handler runs: what the handler reads there is not defined,
  and \<open>what\<close> is \<open>None\<close> for it.
\<close>

fun what :: "error \<Rightarrow> string option" where
  "what UnsupportedFormat = Some ''only constant RGB format 32 bit float input supported''"
| "what GpuInstanceFailed = Some ''failed to create GPU instance''"
| "what NoiseRange = Some ''noise must be between -1 and 3 (inclusive)''"
| "what ScaleRange = Some ''scale must be 1 or 2''"
| "what TileWidth = Some ''tile_w must be at least 32''"
| "what TileHeight = Some ''tile_h must be at least 32''"
| "what ModelRange = Some ''model must be between 0 and 2 (inclusive)''"
| "what OnlyCunetScale1 = Some ''only cunet model supports scale=1''"
| "what InvalidGpu = Some ''invalid GPU device''"
| "what (GpuThreadRange q) = None"
| "what ModelLoad = Some ''failed to load model''"

text \<open>
  Lines 141 to 163. \<open>static_cast<uint32_t>(gpuThread)\<close> is the value modulo \<open>2^32\<close>;
  it is only evaluated when \<open>gpuThread < 1\<close> is false.
\<close>

definition validate :: "environment \<Rightarrow> options \<Rightarrow> error option" where
  "validate env p =
     (if noise p < - 1 \<or> noise p > 3 then Some NoiseRange
      else if scale p < 1 \<or> scale p > 2 then Some ScaleRange
      else if tile_w p < 32 then Some TileWidth
      else if tile_h p < 32 then Some TileHeight
      else if model p < 0 \<or> model p > 2 then Some ModelRange
      else if model p \<noteq> 2 \<and> scale p = 1 then Some OnlyCunetScale1
      else if gpuId p < 0 \<or> gpuId p \<ge> get_gpu_count env then Some InvalidGpu
      else let queue_count = compute_queue_count (get_gpu_info env (gpuId p))
           in if gpuThread p < 1 \<or> gpuThread p mod 2 ^ 32 > int queue_count
              then Some (GpuThreadRange queue_count)
              else None)"

text \<open>Lines 166 to 169: one line per device, \<open>index: name\<close>.\<close>

definition gpu_listing :: "environment \<Rightarrow> string" where
  "gpu_listing env =
     concat (map (\<lambda>i. to_string (int i) @ '': '' @ device_name (get_gpu_info env (int i)) @ [CHR 0x0A])
                 [0 ..< nat (get_gpu_count env)])"

text \<open>Lines 209 and 210.\<close>

definition models_root :: "environment \<Rightarrow> string" where
  "models_root env =
     (let pluginPath = plugin_path env
      in substr0 pluginPath (rfind pluginPath CHR ''/'') @ ''/models'')"

text \<open>
  Lines 212 to 227: the \<open>switch\<close> extends \<open>modelDir\<close> and sets \<open>prepadding\<close>, which
  starts at 0 (\<open>int prepadding{}\<close>) and stays so when no case matches.
\<close>

definition select_model :: "string \<Rightarrow> int \<Rightarrow> int \<Rightarrow> int \<Rightarrow> string \<times> int" where
  "select_model modelDir m n s =
     (if m = 0 then (modelDir @ ''/models-upconv_7_anime_style_art_rgb'', 7)
      else if m = 1 then (modelDir @ ''/models-upconv_7_photo'', 7)
      else if m = 2 then (modelDir @ ''/models-cunet'', if n = - 1 \<or> s = 2 then 18 else 28)
      else (modelDir, 0))"

text \<open>Lines 229 to 240: \<open>(paramPath, modelPath)\<close>.\<close>

definition model_files :: "string \<Rightarrow> int \<Rightarrow> int \<Rightarrow> string \<times> string" where
  "model_files modelDir n s =
     (if n = - 1 then
        (modelDir @ ''/scale2.0x_model.param'', modelDir @ ''/scale2.0x_model.bin'')
      else if s = 1 then
        (modelDir @ ''/noise'' @ to_string n @ ''_model.param'',
         modelDir @ ''/noise'' @ to_string n @ ''_model.bin'')
      else
        (modelDir @ ''/noise'' @ to_string n @ ''_scale2.0x_model.param'',
         modelDir @ ''/noise'' @ to_string n @ ''_scale2.0x_model.bin''))"

text \<open>
  The engine object of waifu2x.h, as plugin.cpp leaves it: the three constructor
  arguments (line 247), the three arguments of \<open>load\<close> (line 258) and the five fields
  assigned at lines 261 to 265.
\<close>

record Waifu2x =
  w2x_gpuid :: int
  w2x_tta_mode :: bool
  w2x_num_threads :: int
  w2x_parampath :: string
  w2x_modelpath :: string
  w2x_fp32 :: bool
  w2x_noise :: int
  w2x_scale :: int
  w2x_tile_w :: int
  w2x_tile_h :: int
  w2x_prepadding :: int

text \<open>
  \<open>struct Waifu2xData\<close>. The semaphore is given by the number of permits it is
  constructed with (line 267).
\<close>

record Waifu2xData =
  node :: VSNode
  vi :: VSVideoInfo
  waifu2x :: Waifu2x
  semaphore :: int

text \<open>
  How a call of \<open>waifu2xCreate\<close> leaves \<open>out\<close>: an error (\<open>mapSetError\<close>), an existing
  node handed on under \<open>clip\<close> (\<open>mapConsumeNode\<close>), or a new filter with its instance
  data (\<open>createVideoFilter\<close>).
\<close>

datatype failure = Thrown error | InvokeError string

datatype result = Failed failure | Forwarded VSNode | Created Waifu2xData

text \<open>
  The text that \<open>mapSetError\<close> receives (lines 177 and 269); \<open>None\<close> where it is built
  from characters that are not defined.
\<close>

fun error_text :: "failure \<Rightarrow> string option" where
  "error_text (Thrown e) = map_option (\<lambda>m. ''waifu2x-ncnn-Vulkan: '' @ m) (what e)"
| "error_text (InvokeError m) = Some m"

text \<open>Whether the call ended in an error, and whether the error is the one thrown at line 163.\<close>

fun failed :: "result \<Rightarrow> bool" where
  "failed (Failed f) = True"
| "failed (Forwarded n) = False"
| "failed (Created d) = False"

fun is_GpuThreadRange :: "error \<Rightarrow> bool" where
  "is_GpuThreadRange (GpuThreadRange q) = True"
| "is_GpuThreadRange e = False"

text \<open>
  \<open>d->vi.width *= scale\<close> (lines 206 and 207) multiplies two 32-bit \<open>int\<close>s. A product
  outside the range of \<open>int\<close> comes out reduced modulo \<open>2^32\<close> into that range, which
  is what the compiled multiplication leaves in the variable.
\<close>

definition int32 :: "int \<Rightarrow> int" where
  "int32 x = (x + 2147483648) mod 4294967296 - 2147483648"

text \<open>
  Lines 206 to 267: everything after the two short-circuits. The two branches of the
  \<open>#ifdef _WIN32\<close> at line 249 load the same two paths, as wide or as narrow strings;
  \<open>load\<close> raises nothing that \<open>waifu2xCreate\<close> catches.
\<close>

definition build_filter :: "environment \<Rightarrow> VSNode \<Rightarrow> VSVideoInfo \<Rightarrow> options \<Rightarrow> error + Waifu2xData" where
  "build_filter env n v p =
     (let v' = v\<lparr>width := int32 (width v * scale p), height := int32 (height v * scale p)\<rparr>;
          (modelDir, prepadding) = select_model (models_root env) (model p) (noise p) (scale p);
          (paramPath, modelPath) = model_files modelDir (noise p) (scale p)
      in if \<not> is_open env paramPath then Inl ModelLoad
         else Inr \<lparr> node = n, vi = v',
                    waifu2x = \<lparr> w2x_gpuid = gpuId p, w2x_tta_mode = tta p, w2x_num_threads = 1,
                                w2x_parampath = paramPath, w2x_modelpath = modelPath, w2x_fp32 = fp32 p,
                                w2x_noise = noise p, w2x_scale = scale p,
                                w2x_tile_w = tile_w p, w2x_tile_h = tile_h p,
                                w2x_prepadding = prepadding \<rparr>,
                    semaphore = gpuThread p \<rparr>)"

text \<open>The condition of the \<open>if\<close> at lines 102 to 105.\<close>

definition unsupported_input :: "VSVideoInfo \<Rightarrow> bool" where
  "unsupported_input v \<longleftrightarrow>
     \<not> isConstantVideoFormat v \<or> colorFamily (format v) \<noteq> cfRGB \<or>
     sampleType (format v) \<noteq> stFloat \<or> bitsPerSample (format v) \<noteq> 32"

text \<open>
  The \<open>try\<close> block, lines 98 to 267. \<open>Inl\<close> is a \<open>throw\<close>; \<open>Inr\<close> is a \<open>return\<close>
  inside the block or, with \<open>Created\<close>, falling out of its end.
\<close>

definition try_block :: "environment \<Rightarrow> VSMap_in \<Rightarrow> gpu_state \<Rightarrow> (error + result) \<times> gpu_state" where
  "try_block env a s =
     (let n = arg_clip a; v = getVideoInfo n
      in if unsupported_input v then (Inl UnsupportedFormat, s)
         else
           (let (rc, s1) = create_gpu_instance env s
            in if rc \<noteq> 0 then (Inl GpuInstanceFailed, s1)
               else
                 (let s2 = s1\<lparr>numGPUInstances := numGPUInstances s1 + 1\<rparr>;
                      p = read_options env v a
                  in (case validate env p of
                        Some e \<Rightarrow> (Inl e, s2)
                      | None \<Rightarrow>
                          if fst (mapGetInt (arg_list_gpu a)) \<noteq> 0 then
                            (case invoke_Text env n (gpu_listing env) of
                               Inl m \<Rightarrow> (Inr (Failed (InvokeError m)), dec_numGPUInstances s2)
                             | Inr t \<Rightarrow> (Inr (Forwarded t), dec_numGPUInstances s2))
                          else if noise p = - 1 \<and> scale p = 1 then
                            (Inr (Forwarded n), dec_numGPUInstances s2)
                          else
                            (case build_filter env n v p of
                               Inl e \<Rightarrow> (Inl e, s2)
                             | Inr d \<Rightarrow> (Inr (Created d), s2))))))"

text \<open>Lines 94 to 281: the \<open>try\<close> block and its \<open>catch\<close> handler (lines 268 to 276).\<close>

definition waifu2xCreate :: "environment \<Rightarrow> VSMap_in \<Rightarrow> gpu_state \<Rightarrow> result \<times> gpu_state" where
  "waifu2xCreate env a s =
     (case try_block env a s of
        (Inl e, s') \<Rightarrow> (Failed (Thrown e), dec_numGPUInstances s')
      | (Inr r, s') \<Rightarrow> (r, s'))"

text \<open>Lines 85 to 92, on the shared state.\<close>

definition waifu2xFree :: "Waifu2xData \<Rightarrow> gpu_state \<Rightarrow> gpu_state" where
  "waifu2xFree d s = dec_numGPUInstances s"

text \<open>The instance data of a created filter, if the call created one.\<close>

fun created :: "result \<Rightarrow> Waifu2xData option" where
  "created (Created d) = Some d"
| "created (Failed f) = None"
| "created (Forwarded n) = None"

section \<open>filter, called from many frame threads\<close>

text \<open>
  Lines 61 to 63 of \<open>filter\<close>: \<open>acquire\<close>, \<open>process\<close>, \<open>release\<close>. A frame thread is
  at one of these three statements or has returned. A thread at \<open>AtProcess\<close> has
  come back from \<open>acquire\<close> and not yet from \<open>process\<close>: its engine invocation is in
  flight.
\<close>

datatype filter_pc = AtAcquire | AtProcess | AtRelease | Returned

text \<open>The semaphore's counter and the position of every thread that has entered \<open>filter\<close>.\<close>

record gate =
  permits :: int
  pcs :: "filter_pc list"

text \<open>
  One step of thread \<open>i\<close>. \<open>acquire\<close> takes a permit when the counter is positive and
  otherwise leaves the thread waiting where it is; \<open>process\<close> returns; \<open>release\<close> gives
  the permit back.
\<close>

definition filter_step :: "nat \<Rightarrow> gate \<Rightarrow> gate" where
  "filter_step i g =
     (if i < length (pcs g) then
        (case pcs g ! i of
           AtAcquire \<Rightarrow>
             if permits g > 0 then g\<lparr>permits := permits g - 1, pcs := (pcs g)[i := AtProcess]\<rparr> else g
         | AtProcess \<Rightarrow> g\<lparr>pcs := (pcs g)[i := AtRelease]\<rparr>
         | AtRelease \<Rightarrow> g\<lparr>permits := permits g + 1, pcs := (pcs g)[i := Returned]\<rparr>
         | Returned \<Rightarrow> g)
      else g)"

text \<open>A schedule names the thread that moves next; \<open>k\<close> frame requests enter \<open>filter\<close>.\<close>

definition run :: "nat list \<Rightarrow> gate \<Rightarrow> gate" where
  "run sched g = fold filter_step sched g"

definition frame_requests :: "Waifu2xData \<Rightarrow> nat \<Rightarrow> gate" where
  "frame_requests d k = \<lparr> permits = semaphore d, pcs = replicate k AtAcquire \<rparr>"

definition in_flight :: "gate \<Rightarrow> nat" where
  "in_flight g = length (filter (\<lambda>pc. pc = AtProcess) (pcs g))"

definition permits_held :: "gate \<Rightarrow> nat" where
  "permits_held g = length (filter (\<lambda>pc. pc = AtProcess \<or> pc = AtRelease) (pcs g))"

section \<open>The specification's wording of the validation order and of the file names\<close>

text \<open>
  The constraints as the specification lists them, each with the error that names it,
  and the first one in that order that does not hold. These follow the specification's
  sentences, to be compared with \<open>validate\<close> and \<open>model_files\<close> above.
\<close>

definition spec_constraints :: "environment \<Rightarrow> options \<Rightarrow> (bool \<times> error) list" where
  "spec_constraints env p =
     (let q = compute_queue_count (gpus env ! nat (gpuId p))
      in [(- 1 \<le> noise p \<and> noise p \<le> 3, NoiseRange),
          (scale p = 1 \<or> scale p = 2, ScaleRange),
          (32 \<le> tile_w p, TileWidth),
          (32 \<le> tile_h p, TileHeight),
          (model p = 0 \<or> model p = 1 \<or> model p = 2, ModelRange),
          (model p = 2 \<or> scale p = 2, OnlyCunetScale1),
          (0 \<le> gpuId p \<and> gpuId p < int (length (gpus env)), InvalidGpu),
          (1 \<le> gpuThread p \<and> gpuThread p \<le> int q, GpuThreadRange q)])"

fun first_violated :: "(bool \<times> error) list \<Rightarrow> error option" where
  "first_violated [] = None"
| "first_violated ((ok, e) # cs) = (if ok then first_violated cs else Some e)"

definition spec_variant_dir :: "string \<Rightarrow> int \<Rightarrow> string" where
  "spec_variant_dir root m =
     root @ (if m = 0 then ''/models-upconv_7_anime_style_art_rgb''
             else if m = 1 then ''/models-upconv_7_photo''
             else ''/models-cunet'')"

text \<open>The noise level \<open>0..3\<close> as it appears in a file name: one decimal digit.\<close>

definition spec_level :: "int \<Rightarrow> string" where
  "spec_level n = [char_of (48 + nat n)]"

definition spec_artifact :: "string \<Rightarrow> int \<Rightarrow> int \<Rightarrow> string \<Rightarrow> string" where
  "spec_artifact dir n s ext =
     (if n = - 1 then dir @ ''/scale2.0x_model.'' @ ext
      else if s = 1 then dir @ ''/noise'' @ spec_level n @ ''_model.'' @ ext
      else dir @ ''/noise'' @ spec_level n @ ''_scale2.0x_model.'' @ ext)"

definition spec_padding :: "int \<Rightarrow> int \<Rightarrow> int \<Rightarrow> int" where
  "spec_padding m n s =
     (if m = 0 then 7 else if m = 1 then 7 else if n = - 1 \<or> s = 2 then 18 else 28)"

section \<open>Concrete inputs\<close>

definition rgbs :: "int \<Rightarrow> int \<Rightarrow> VSVideoInfo" where
  "rgbs w h = \<lparr> format = \<lparr> colorFamily = cfRGB, sampleType = stFloat, bitsPerSample = 32 \<rparr>,
               width = w, height = h \<rparr>"

definition yuv8 :: "int \<Rightarrow> int \<Rightarrow> VSVideoInfo" where
  "yuv8 w h = \<lparr> format = \<lparr> colorFamily = cfYUV, sampleType = stInteger, bitsPerSample = 8 \<rparr>,
               width = w, height = h \<rparr>"

definition only_clip :: "VSNode \<Rightarrow> VSMap_in" where
  "only_clip n = \<lparr> arg_clip = n, arg_noise = None, arg_scale = None, arg_tile_w = None,
                   arg_tile_h = None, arg_model = None, arg_gpu_id = None, arg_gpu_thread = None,
                   arg_tta = None, arg_fp32 = None, arg_list_gpu = None \<rparr>"

text \<open>A machine with one device of four compute queues and the cunet model files in place.\<close>

definition one_gpu :: environment where
  "one_gpu = \<lparr> gpu_instance_available = True,
               gpus = [\<lparr> device_name = ''GPU A'', compute_queue_count = 4 \<rparr>],
               default_gpu_index = 0,
               plugin_path = ''/vs/plugins/w2x.so'',
               files = [''/vs/plugins/models/models-cunet/noise0_scale2.0x_model.param'',
                        ''/vs/plugins/models/models-cunet/noise2_model.param'',
                        ''/vs/plugins/models/models-cunet/scale2.0x_model.param'',
                        ''/vs/plugins/models/models-upconv_7_photo/noise1_scale2.0x_model.param''],
               text_plugin_error = None \<rparr>"

definition idle :: gpu_state where
  "idle = \<lparr> numGPUInstances = 0, gpu_instance = False \<rparr>"

definition one_filter_live :: gpu_state where
  "one_filter_live = \<lparr> numGPUInstances = 1, gpu_instance = True \<rparr>"

section \<open>How a call of waifu2xCreate runs\<close>

declare digits_of.simps [simp del]

lemma int64ToIntS_range: "- 2147483648 \<le> int64ToIntS v \<and> int64ToIntS v \<le> 2147483647"
  by (simp add: int64ToIntS_def)

lemma create_before_acquire:
  "unsupported_input (getVideoInfo (arg_clip a)) \<Longrightarrow>
     waifu2xCreate env a s = (Failed (Thrown UnsupportedFormat), dec_numGPUInstances s)"
  "\<not> unsupported_input (getVideoInfo (arg_clip a)) \<Longrightarrow> \<not> gpu_instance_available env \<Longrightarrow>
     waifu2xCreate env a s = (Failed (Thrown GpuInstanceFailed), dec_numGPUInstances s)"
  by (simp_all add: waifu2xCreate_def try_block_def create_gpu_instance_def Let_def)

lemma create_after_acquire:
  assumes "\<not> unsupported_input (getVideoInfo (arg_clip a))" and "gpu_instance_available env"
  shows "waifu2xCreate env a s =
     (let n = arg_clip a; v = getVideoInfo n; p = read_options env v a;
          s2 = s\<lparr>gpu_instance := True, numGPUInstances := numGPUInstances s + 1\<rparr>
      in (case validate env p of
            Some e \<Rightarrow> (Failed (Thrown e), dec_numGPUInstances s2)
          | None \<Rightarrow>
              if fst (mapGetInt (arg_list_gpu a)) \<noteq> 0 then
                (case invoke_Text env n (gpu_listing env) of
                   Inl m \<Rightarrow> (Failed (InvokeError m), dec_numGPUInstances s2)
                 | Inr t \<Rightarrow> (Forwarded t, dec_numGPUInstances s2))
              else if noise p = - 1 \<and> scale p = 1 then (Forwarded n, dec_numGPUInstances s2)
              else (case build_filter env n v p of
                      Inl e \<Rightarrow> (Failed (Thrown e), dec_numGPUInstances s2)
                    | Inr d \<Rightarrow> (Created d, s2))))"
  using assms
  by (simp add: waifu2xCreate_def try_block_def create_gpu_instance_def Let_def
           split: option.split sum.split)

lemma dec_after_inc:
  "dec_numGPUInstances (s\<lparr>gpu_instance := True, numGPUInstances := numGPUInstances s + 1\<rparr>) =
     s\<lparr>gpu_instance := (numGPUInstances s \<noteq> 0)\<rparr>"
  by (simp add: dec_numGPUInstances_def destroy_gpu_instance_def Let_def)

lemma count_after_acquire:
  assumes "\<not> unsupported_input (getVideoInfo (arg_clip a))" and "gpu_instance_available env"
  shows "numGPUInstances (snd (waifu2xCreate env a s)) =
           numGPUInstances s + (if created (fst (waifu2xCreate env a s)) = None then 0 else 1)"
  using assms
  by (simp add: create_after_acquire dec_after_inc Let_def split: option.split sum.split)

lemma waifu2xFree_count:
  "numGPUInstances (waifu2xFree d s) = numGPUInstances s - 1 \<and>
   gpu_instance (waifu2xFree d s) = (gpu_instance s \<and> numGPUInstances s \<noteq> 1)"
  by (simp add: waifu2xFree_def dec_numGPUInstances_def destroy_gpu_instance_def Let_def)

lemma created_reaches_build:
  assumes "fst (waifu2xCreate env a s) = Created d"
  shows "\<not> unsupported_input (getVideoInfo (arg_clip a))"
    and "gpu_instance_available env"
    and "validate env (read_options env (getVideoInfo (arg_clip a)) a) = None"
    and "fst (mapGetInt (arg_list_gpu a)) = 0"
    and "\<not> (noise (read_options env (getVideoInfo (arg_clip a)) a) = - 1 \<and>
             scale (read_options env (getVideoInfo (arg_clip a)) a) = 1)"
    and "build_filter env (arg_clip a) (getVideoInfo (arg_clip a))
           (read_options env (getVideoInfo (arg_clip a)) a) = Inr d"
    and "snd (waifu2xCreate env a s) = s\<lparr>gpu_instance := True, numGPUInstances := numGPUInstances s + 1\<rparr>"
  using assms
  by (auto simp: waifu2xCreate_def try_block_def create_gpu_instance_def Let_def
           split: option.splits sum.splits if_splits)

lemma validate_None_D:
  assumes "validate env p = None"
  shows "- 1 \<le> noise p" "noise p \<le> 3" "scale p = 1 \<or> scale p = 2" "32 \<le> tile_w p" "32 \<le> tile_h p"
    "model p = 0 \<or> model p = 1 \<or> model p = 2" "model p = 2 \<or> scale p = 2"
    "0 \<le> gpuId p" "gpuId p < get_gpu_count env" "1 \<le> gpuThread p"
    "gpuThread p mod 2 ^ 32 \<le> int (compute_queue_count (get_gpu_info env (gpuId p)))"
  using assms by (auto simp: validate_def Let_def split: if_splits)

lemma int32_in_range: "- 2147483648 \<le> x \<Longrightarrow> x \<le> 2147483647 \<Longrightarrow> int32 x = x"
  by (simp add: int32_def)

lemma int32_wraps: "int32 (1073741824 * 2) = - 2147483648"
  by (simp add: int32_def)

lemma validate_not_ModelLoad: "validate env p \<noteq> Some ModelLoad"
  by (simp add: validate_def Let_def)

lemma build_filter_Inr_D:
  assumes "build_filter env n v p = Inr d"
  shows "node d = n"
    and "vi d = v\<lparr>width := int32 (width v * scale p), height := int32 (height v * scale p)\<rparr>"
    and "semaphore d = gpuThread p"
    and "w2x_num_threads (waifu2x d) = 1"
    and "w2x_gpuid (waifu2x d) = gpuId p"
    and "w2x_noise (waifu2x d) = noise p"
    and "w2x_scale (waifu2x d) = scale p"
    and "w2x_tile_w (waifu2x d) = tile_w p"
    and "w2x_tile_h (waifu2x d) = tile_h p"
    and "w2x_prepadding (waifu2x d) = snd (select_model (models_root env) (model p) (noise p) (scale p))"
    and "w2x_parampath (waifu2x d) =
           fst (model_files (fst (select_model (models_root env) (model p) (noise p) (scale p))) (noise p) (scale p))"
    and "w2x_modelpath (waifu2x d) =
           snd (model_files (fst (select_model (models_root env) (model p) (noise p) (scale p))) (noise p) (scale p))"
    and "is_open env (w2x_parampath (waifu2x d))"
  using assms
  by (auto simp: build_filter_def Let_def split: prod.splits if_splits)

lemma build_filter_Inl_D:
  assumes "build_filter env n v p = Inl e"
  shows "e = ModelLoad"
    and "\<not> is_open env
           (fst (model_files (fst (select_model (models_root env) (model p) (noise p) (scale p))) (noise p) (scale p)))"
  using assms
  by (auto simp: build_filter_def Let_def split: prod.splits if_splits)

lemma failed_ModelLoad_reaches_build:
  assumes "fst (waifu2xCreate env a s) = Failed (Thrown ModelLoad)"
  shows "build_filter env (arg_clip a) (getVideoInfo (arg_clip a))
           (read_options env (getVideoInfo (arg_clip a)) a) = Inl ModelLoad"
  using assms validate_not_ModelLoad [of env "read_options env (getVideoInfo (arg_clip a)) a"]
  by (auto simp: waifu2xCreate_def try_block_def create_gpu_instance_def Let_def
           split: option.splits sum.splits if_splits dest: build_filter_Inl_D(1))

lemma digits_of_small: "n < 10 \<Longrightarrow> digits_of n = [char_of (48 + n)]"
  by (subst digits_of.simps) simp

lemma to_string_level: "0 \<le> n \<Longrightarrow> n \<le> 3 \<Longrightarrow> to_string n = spec_level n"
  by (simp add: to_string_def spec_level_def digits_of_small)

lemma read_options_gpuThread_int: "gpuThread (read_options env v a) \<le> 2147483647"
  by (simp add: read_options_def mapGetIntSaturated_def mapGetInt_def int64ToIntS_range
           split: option.split)

lemma validate_is_first_violated:
  assumes "gpuThread p \<le> 2147483647"
  shows "validate env p = first_violated (spec_constraints env p)"
proof -
  have "gpuThread p mod 2 ^ 32 = gpuThread p" if "1 \<le> gpuThread p"
    using that assms by simp
  then show ?thesis
    by (auto simp: validate_def spec_constraints_def Let_def get_gpu_count_def get_gpu_info_def)
qed

lemma select_model_validated:
  assumes "m = 0 \<or> m = 1 \<or> m = 2"
  shows "select_model root m n s = (spec_variant_dir root m, spec_padding m n s)"
  using assms by (auto simp: select_model_def spec_variant_dir_def spec_padding_def)

lemma model_files_validated:
  assumes "- 1 \<le> n" "n \<le> 3"
  shows "model_files dir n s = (spec_artifact dir n s ''param'', spec_artifact dir n s ''bin'')"
proof (cases "n = - 1")
  case True
  then show ?thesis by (simp add: model_files_def spec_artifact_def)
next
  case False
  with assms have "to_string n = spec_level n" by (simp add: to_string_level)
  with False show ?thesis by (simp add: model_files_def spec_artifact_def)
qed

lemma gpu_listing_enumerate:
  "gpu_listing env =
     concat (map (\<lambda>(i, g). to_string (int i) @ '': '' @ device_name g @ [CHR 0x0A])
                 (enumerate 0 (gpus env)))"
proof -
  have "map (\<lambda>i. f i (xs ! i)) [0 ..< length xs] = map (\<lambda>(i, x). f i x) (enumerate 0 xs)"
    for f :: "nat \<Rightarrow> 'a \<Rightarrow> 'b" and xs
    by (rule nth_equalityI) (simp_all add: nth_enumerate_eq)
  from this [of "\<lambda>i g. to_string (int i) @ '': '' @ device_name g @ [CHR 0x0A]" "gpus env"]
  show ?thesis
    by (simp add: gpu_listing_def get_gpu_count_def get_gpu_info_def)
qed

section \<open>The permits of the semaphore\<close>

lemma count_list_update:
  "i < length xs \<Longrightarrow>
     int (length (filter P (xs[i := y]))) =
       int (length (filter P xs)) - (if P (xs ! i) then 1 else 0) + (if P y then 1 else 0)"
proof (induction xs arbitrary: i)
  case Nil
  then show ?case by simp
next
  case (Cons x xs)
  show ?case
  proof (cases i)
    case 0
    then show ?thesis by simp
  next
    case (Suc j)
    with Cons.prems have "j < length xs" by simp
    from Cons.IH [OF this] Suc show ?thesis by (auto split: if_splits)
  qed
qed

lemma filter_step_keeps_permits:
  assumes "0 \<le> permits g"
  shows "0 \<le> permits (filter_step i g)"
    and "permits (filter_step i g) + int (permits_held (filter_step i g)) = permits g + int (permits_held g)"
  using assms
  by (auto simp: filter_step_def permits_held_def count_list_update split: filter_pc.splits)

lemma run_keeps_permits:
  "0 \<le> permits g \<Longrightarrow>
     0 \<le> permits (run sched g) \<and>
     permits (run sched g) + int (permits_held (run sched g)) = permits g + int (permits_held g)"
proof (induction sched arbitrary: g)
  case Nil
  then show ?case by (simp add: run_def)
next
  case (Cons i sched)
  have step: "0 \<le> permits (filter_step i g)"
    "permits (filter_step i g) + int (permits_held (filter_step i g)) = permits g + int (permits_held g)"
    using Cons.prems by (rule filter_step_keeps_permits)+
  have "run (i # sched) g = run sched (filter_step i g)"
    by (simp add: run_def)
  with Cons.IH [OF step(1)] step(2) show ?case by simp
qed

lemma in_flight_le_held: "in_flight g \<le> permits_held g"
proof -
  have "length (filter (\<lambda>pc. pc = AtProcess) xs) \<le> length (filter (\<lambda>pc. pc = AtProcess \<or> pc = AtRelease) xs)"
    for xs :: "filter_pc list"
    by (induction xs) auto
  then show ?thesis by (simp add: in_flight_def permits_held_def)
qed

lemma frame_requests_start: "permits (frame_requests d k) = semaphore d" "permits_held (frame_requests d k) = 0"
  by (simp_all add: frame_requests_def permits_held_def)

lemma single_request_passes:
  "1 \<le> semaphore d \<Longrightarrow>
     run [0] (frame_requests d 1) = \<lparr>permits = semaphore d - 1, pcs = [AtProcess]\<rparr> \<and>
     run [0, 0] (frame_requests d 1) = \<lparr>permits = semaphore d - 1, pcs = [AtRelease]\<rparr> \<and>
     run [0, 0, 0] (frame_requests d 1) = \<lparr>permits = semaphore d, pcs = [Returned]\<rparr>"
  by (simp add: run_def frame_requests_def filter_step_def)

section \<open>The claims\<close>

text \<open>
  C1. The claim: the count goes up on each successful construction, goes down on each
  teardown and on each failed construction that had already raised it, and only on
  those; a construction that fails before the GPU context was acquired leaves the count
  alone. The code: a construction that is refused for its clip format (line 106), or
  because the GPU instance cannot be created (line 109), throws before line 110 has
  raised the count, and the \<open>catch\<close> handler at line 272 lowers the count all the same.
  So such a call leaves the count one lower than it found it, and destroys the GPU
  instance when the count was 1, that is, while another filter is alive.
\<close>

theorem failure_before_acquire_still_decrements:
  assumes "unsupported_input (getVideoInfo (arg_clip a)) \<or> \<not> gpu_instance_available env"
  shows "created (fst (waifu2xCreate env a s)) = None \<and>
         numGPUInstances (snd (waifu2xCreate env a s)) = numGPUInstances s - 1 \<and>
         gpu_instance (snd (waifu2xCreate env a s)) = (gpu_instance s \<and> numGPUInstances s \<noteq> 1)"
proof (cases "unsupported_input (getVideoInfo (arg_clip a))")
  case True
  then show ?thesis
    by (simp add: create_before_acquire(1) dec_numGPUInstances_def destroy_gpu_instance_def Let_def)
next
  case False
  with assms have "\<not> gpu_instance_available env" by simp
  with False show ?thesis
    by (simp add: create_before_acquire(2) dec_numGPUInstances_def destroy_gpu_instance_def Let_def)
qed

theorem failure_before_acquire_still_decrements_witness:
  "unsupported_input (getVideoInfo (arg_clip (only_clip (Clip (yuv8 64 48))))) \<and>
   fst (waifu2xCreate one_gpu (only_clip (Clip (yuv8 64 48))) one_filter_live) = Failed (Thrown UnsupportedFormat) \<and>
   numGPUInstances (snd (waifu2xCreate one_gpu (only_clip (Clip (yuv8 64 48))) one_filter_live)) = 0 \<and>
   \<not> gpu_instance (snd (waifu2xCreate one_gpu (only_clip (Clip (yuv8 64 48))) one_filter_live))"
proof -
  have h: "unsupported_input (getVideoInfo (arg_clip (only_clip (Clip (yuv8 64 48)))))"
    by code_simp
  have e: "fst (waifu2xCreate one_gpu (only_clip (Clip (yuv8 64 48))) one_filter_live) = Failed (Thrown UnsupportedFormat)"
    by code_simp
  from failure_before_acquire_still_decrements [OF disjI1 [OF h], of one_gpu one_filter_live] h e
  show ?thesis by (simp add: one_filter_live_def)
qed

text \<open>
  C2. For a created filter, whatever the number of frame requests and however their
  threads are scheduled, the number of threads between \<open>acquire\<close> and the return of
  \<open>process\<close> never exceeds \<open>gpu_thread\<close>: the semaphore starts with \<open>gpu_thread\<close>
  permits, the permits left plus the permits held always add up to that number, and a
  request that runs alone goes through \<open>acquire\<close>, \<open>process\<close> and \<open>release\<close> in this
  order and leaves the semaphore as it found it.
\<close>

theorem gate_bounds_engine_invocations:
  assumes "fst (waifu2xCreate env a s) = Created d"
  shows "semaphore d = gpuThread (read_options env (getVideoInfo (arg_clip a)) a) \<and>
         int (in_flight (run sched (frame_requests d k))) \<le> semaphore d \<and>
         0 \<le> permits (run sched (frame_requests d k)) \<and>
         permits (run sched (frame_requests d k)) + int (permits_held (run sched (frame_requests d k))) = semaphore d \<and>
         run [0] (frame_requests d 1) = \<lparr>permits = semaphore d - 1, pcs = [AtProcess]\<rparr> \<and>
         run [0, 0] (frame_requests d 1) = \<lparr>permits = semaphore d - 1, pcs = [AtRelease]\<rparr> \<and>
         run [0, 0, 0] (frame_requests d 1) = \<lparr>permits = semaphore d, pcs = [Returned]\<rparr>"
proof -
  let ?p = "read_options env (getVideoInfo (arg_clip a)) a"
  have sem: "semaphore d = gpuThread ?p"
    using created_reaches_build(6) [OF assms] by (rule build_filter_Inr_D(3))
  have pos: "1 \<le> semaphore d"
    using validate_None_D(10) [OF created_reaches_build(3) [OF assms]] sem by simp
  then have "0 \<le> permits (frame_requests d k)"
    by (simp add: frame_requests_start)
  from run_keeps_permits [OF this, of sched]
  have inv: "0 \<le> permits (run sched (frame_requests d k))"
    "permits (run sched (frame_requests d k)) + int (permits_held (run sched (frame_requests d k))) = semaphore d"
    by (simp_all add: frame_requests_start)
  have "int (in_flight (run sched (frame_requests d k))) \<le> int (permits_held (run sched (frame_requests d k)))"
    using in_flight_le_held by simp
  with inv have "int (in_flight (run sched (frame_requests d k))) \<le> semaphore d"
    by linarith
  with sem inv single_request_passes [OF pos] show ?thesis by simp
qed

theorem gate_bounds_engine_invocations_witness:
  "created (fst (waifu2xCreate one_gpu (only_clip (Clip (rgbs 64 48))) idle)) \<noteq> None \<and>
   map_option (\<lambda>d. (semaphore d, int (in_flight (run [0, 1, 2, 3, 4, 5, 6, 7, 8, 9] (frame_requests d 10))) \<le> 2))
     (created (fst (waifu2xCreate one_gpu (only_clip (Clip (rgbs 64 48))) idle))) = Some (2, True)"
proof -
  have c: "created (fst (waifu2xCreate one_gpu (only_clip (Clip (rgbs 64 48))) idle)) \<noteq> None"
    by code_simp
  then obtain d where h: "fst (waifu2xCreate one_gpu (only_clip (Clip (rgbs 64 48))) idle) = Created d"
    by (cases "fst (waifu2xCreate one_gpu (only_clip (Clip (rgbs 64 48))) idle)") auto
  have g: "gpuThread (read_options one_gpu (getVideoInfo (arg_clip (only_clip (Clip (rgbs 64 48)))))
             (only_clip (Clip (rgbs 64 48)))) = 2"
    by code_simp
  from gate_bounds_engine_invocations [OF h, of "[0, 1, 2, 3, 4, 5, 6, 7, 8, 9]" 10] g h
  show ?thesis by simp
qed

text \<open>
  C3. As stated (noise \<open>-1\<close>, scale 1 and no \<open>list_gpu\<close> always pass the source
  through) the claim fails: the short-circuit at line 197 comes after the checks of
  lines 102 to 163, and with \<open>model = 0\<close> the call ends at line 157.
\<close>

theorem passthrough_fails_validation_counterexample:
  "arg_noise ((only_clip (Clip (rgbs 64 48)))\<lparr>arg_noise := Some (- 1), arg_scale := Some 1, arg_model := Some 0\<rparr>) = Some (- 1) \<and>
   arg_scale ((only_clip (Clip (rgbs 64 48)))\<lparr>arg_noise := Some (- 1), arg_scale := Some 1, arg_model := Some 0\<rparr>) = Some 1 \<and>
   arg_list_gpu ((only_clip (Clip (rgbs 64 48)))\<lparr>arg_noise := Some (- 1), arg_scale := Some 1, arg_model := Some 0\<rparr>) = None \<and>
   fst (waifu2xCreate one_gpu
          ((only_clip (Clip (rgbs 64 48)))\<lparr>arg_noise := Some (- 1), arg_scale := Some 1, arg_model := Some 0\<rparr>) idle)
     = Failed (Thrown OnlyCunetScale1) \<and>
   fst (waifu2xCreate one_gpu
          ((only_clip (Clip (rgbs 64 48)))\<lparr>arg_noise := Some (- 1), arg_scale := Some 1, arg_model := Some 0\<rparr>) idle)
     \<noteq> Forwarded (Clip (rgbs 64 48))"
  by code_simp

text \<open>
  C3, amended. If the clip format is accepted, the GPU instance is created and every
  check of lines 141 to 163 passes, then with noise \<open>-1\<close>, scale 1 and no \<open>list_gpu\<close>
  the output is the source node itself, no filter (hence no engine) is created, the
  count is what it was before the call, and the GPU instance is destroyed exactly when
  that count is zero.
\<close>

theorem passthrough_once_validated:
  assumes "v = getVideoInfo (arg_clip a)" and "p = read_options env v a"
    and "\<not> unsupported_input v" and "gpu_instance_available env" and "validate env p = None"
    and "fst (mapGetInt (arg_list_gpu a)) = 0"
    and "noise p = - 1" and "scale p = 1"
  shows "fst (waifu2xCreate env a s) = Forwarded (arg_clip a) \<and>
         created (fst (waifu2xCreate env a s)) = None \<and>
         numGPUInstances (snd (waifu2xCreate env a s)) = numGPUInstances s \<and>
         gpu_instance (snd (waifu2xCreate env a s)) = (numGPUInstances s \<noteq> 0)"
  using assms by (simp add: create_after_acquire dec_after_inc Let_def)

theorem passthrough_once_validated_witness:
  "noise (read_options one_gpu (rgbs 64 48) ((only_clip (Clip (rgbs 64 48)))\<lparr>arg_noise := Some (- 1), arg_scale := Some 1\<rparr>)) = - 1 \<and>
   scale (read_options one_gpu (rgbs 64 48) ((only_clip (Clip (rgbs 64 48)))\<lparr>arg_noise := Some (- 1), arg_scale := Some 1\<rparr>)) = 1 \<and>
   waifu2xCreate one_gpu ((only_clip (Clip (rgbs 64 48)))\<lparr>arg_noise := Some (- 1), arg_scale := Some 1\<rparr>) one_filter_live
     = (Forwarded (Clip (rgbs 64 48)), one_filter_live) \<and>
   waifu2xCreate one_gpu ((only_clip (Clip (rgbs 64 48)))\<lparr>arg_noise := Some (- 1), arg_scale := Some 1\<rparr>) idle
     = (Forwarded (Clip (rgbs 64 48)), idle)"
proof -
  let ?a = "(only_clip (Clip (rgbs 64 48)))\<lparr>arg_noise := Some (- 1), arg_scale := Some 1\<rparr>"
  have v: "rgbs 64 48 = getVideoInfo (arg_clip ?a)" by code_simp
  have u: "\<not> unsupported_input (rgbs 64 48)" by code_simp
  have g: "gpu_instance_available one_gpu" by code_simp
  have val: "validate one_gpu (read_options one_gpu (rgbs 64 48) ?a) = None" by code_simp
  have l: "fst (mapGetInt (arg_list_gpu ?a)) = 0" by code_simp
  have n: "noise (read_options one_gpu (rgbs 64 48) ?a) = - 1" by code_simp
  have sc: "scale (read_options one_gpu (rgbs 64 48) ?a) = 1" by code_simp
  have c: "arg_clip ?a = Clip (rgbs 64 48)" by code_simp
  from passthrough_once_validated [OF v refl u g val l n sc, of one_filter_live]
  have "waifu2xCreate one_gpu ?a one_filter_live = (Forwarded (Clip (rgbs 64 48)), one_filter_live)"
    unfolding c by (cases "waifu2xCreate one_gpu ?a one_filter_live") (auto simp: one_filter_live_def)
  moreover
  from passthrough_once_validated [OF v refl u g val l n sc, of idle]
  have "waifu2xCreate one_gpu ?a idle = (Forwarded (Clip (rgbs 64 48)), idle)"
    unfolding c by (cases "waifu2xCreate one_gpu ?a idle") (auto simp: idle_def)
  ultimately show ?thesis using n sc by simp
qed

text \<open>
  C4. As stated (an absent \<open>noise\<close> resolves to \<open>-1\<close>) the claim fails: line 112 reads
  \<open>noise\<close> with \<open>mapGetIntSaturated\<close> and, unlike lines 114 to 136, does not replace
  the value when the key is absent, so the resolved level is the 0 that the call
  returns. With every option absent the engine gets noise 0 and the file
  \<open>noise0_scale2.0x_model.param\<close>.
\<close>

theorem noise_default_not_minus_one_counterexample:
  "arg_noise (only_clip (Clip (rgbs 64 48))) = None \<and>
   noise (read_options one_gpu (rgbs 64 48) (only_clip (Clip (rgbs 64 48)))) = 0 \<and>
   noise (read_options one_gpu (rgbs 64 48) (only_clip (Clip (rgbs 64 48)))) \<noteq> - 1 \<and>
   map_option (w2x_noise \<circ> waifu2x) (created (fst (waifu2xCreate one_gpu (only_clip (Clip (rgbs 64 48))) idle))) = Some 0 \<and>
   map_option (w2x_parampath \<circ> waifu2x) (created (fst (waifu2xCreate one_gpu (only_clip (Clip (rgbs 64 48))) idle)))
     = Some ''/vs/plugins/models/models-cunet/noise0_scale2.0x_model.param''"
  by code_simp

text \<open>
  C4, amended. When the \<open>noise\<close> option is not supplied, the resolved noise level is 0,
  and the engine of a filter created by such a call has noise 0.
\<close>

theorem noise_default_is_zero:
  assumes "arg_noise a = None"
  shows "noise (read_options env v a) = 0 \<and>
         (fst (waifu2xCreate env a s) = Created d \<longrightarrow> w2x_noise (waifu2x d) = 0)"
proof -
  have n: "noise (read_options env v a) = 0" for v
    using assms by (simp add: read_options_def mapGetIntSaturated_def mapGetInt_def int64ToIntS_def)
  have "w2x_noise (waifu2x d) = 0" if "fst (waifu2xCreate env a s) = Created d"
    using build_filter_Inr_D(6) [OF created_reaches_build(6) [OF that]] n by simp
  with n show ?thesis by simp
qed

theorem noise_default_is_zero_witness:
  "arg_noise ((only_clip (Clip (rgbs 64 48)))\<lparr>arg_gpu_thread := Some 1\<rparr>) = None \<and>
   noise (read_options one_gpu (rgbs 64 48) ((only_clip (Clip (rgbs 64 48)))\<lparr>arg_gpu_thread := Some 1\<rparr>)) = 0 \<and>
   map_option (w2x_noise \<circ> waifu2x)
     (created (fst (waifu2xCreate one_gpu ((only_clip (Clip (rgbs 64 48)))\<lparr>arg_gpu_thread := Some 1\<rparr>) idle))) = Some 0"
proof -
  let ?a = "(only_clip (Clip (rgbs 64 48)))\<lparr>arg_gpu_thread := Some 1\<rparr>"
  have n: "arg_noise ?a = None" by code_simp
  have "created (fst (waifu2xCreate one_gpu ?a idle)) \<noteq> None" by code_simp
  then obtain d where h: "fst (waifu2xCreate one_gpu ?a idle) = Created d"
    by (cases "fst (waifu2xCreate one_gpu ?a idle)") auto
  from noise_default_is_zero [OF n, of one_gpu "rgbs 64 48" idle d] n h
  show ?thesis by simp
qed

text \<open>
  C5. As stated (any input that violates one of the constraints fails with the error of
  the first violated constraint) the claim fails: the clip format (line 102) and the
  creation of the GPU instance (line 108) are checked before any option, so a YUV clip
  with \<open>noise = 4\<close> is refused for its format.
\<close>

theorem validation_after_format_counterexample:
  "first_violated (spec_constraints one_gpu
      (read_options one_gpu (yuv8 64 48) ((only_clip (Clip (yuv8 64 48)))\<lparr>arg_noise := Some 4\<rparr>))) = Some NoiseRange \<and>
   fst (waifu2xCreate one_gpu ((only_clip (Clip (yuv8 64 48)))\<lparr>arg_noise := Some 4\<rparr>) idle)
     = Failed (Thrown UnsupportedFormat) \<and>
   fst (waifu2xCreate one_gpu ((only_clip (Clip (yuv8 64 48)))\<lparr>arg_noise := Some 4\<rparr>) idle)
     \<noteq> Failed (Thrown NoiseRange)"
  by code_simp

text \<open>
  C5, amended. After the clip format check and the creation of the GPU instance, the
  options are checked in the stated order: noise in \<open>[-1, 3]\<close>, scale in \<open>{1, 2}\<close>,
  \<open>tile_w \<ge> 32\<close>, \<open>tile_h \<ge> 32\<close>, model in \<open>{0, 1, 2}\<close>, scale 1 only with model 2, a
  valid device id, \<open>gpu_thread\<close> in \<open>[1, queue count]\<close>; the \<open>throw\<close> that \<open>validate\<close>
  reaches is the one of the first violated constraint in that order. For any input
  that violates one of them, construction fails and no filter is created. When the
  first violated constraint is not the one on \<open>gpu_thread\<close>, the error that
  construction reports is the format error when the clip is not constant RGB 32-bit
  float, else the GPU instance error when the instance cannot be created, else the
  error of that first violated constraint, and its text is the literal of that \<open>throw\<close>.
  Which text is reported when the first violated constraint is the one on
  \<open>gpu_thread\<close> is left open.
\<close>

theorem validation_order:
  assumes "v = getVideoInfo (arg_clip a)" and "p = read_options env v a"
    and "first_violated (spec_constraints env p) = Some e"
  shows "validate env p = Some e \<and>
         failed (fst (waifu2xCreate env a s)) \<and>
         created (fst (waifu2xCreate env a s)) = None \<and>
         (\<not> is_GpuThreadRange e \<longrightarrow>
            fst (waifu2xCreate env a s) =
              Failed (Thrown (if unsupported_input v then UnsupportedFormat
                              else if \<not> gpu_instance_available env then GpuInstanceFailed
                              else e)) \<and>
            what e \<noteq> None)"
proof -
  have val: "validate env p = Some e"
    using assms(2,3) validate_is_first_violated [OF read_options_gpuThread_int, of env env v a] by simp
  consider "unsupported_input v" | "\<not> unsupported_input v" "\<not> gpu_instance_available env"
    | "\<not> unsupported_input v" "gpu_instance_available env" by blast
  then have res: "fst (waifu2xCreate env a s) =
           Failed (Thrown (if unsupported_input v then UnsupportedFormat
                           else if \<not> gpu_instance_available env then GpuInstanceFailed
                           else e))"
  proof cases
    case 1
    then show ?thesis using assms(1) by (simp add: create_before_acquire(1))
  next
    case 2
    then show ?thesis using assms(1) by (simp add: create_before_acquire(2))
  next
    case 3
    then show ?thesis using assms(1,2) val by (simp add: create_after_acquire Let_def)
  qed
  have "what e \<noteq> None" if "\<not> is_GpuThreadRange e"
    using that by (cases e) simp_all
  with val res show ?thesis by simp
qed

theorem validation_order_witness:
  "first_violated (spec_constraints one_gpu
      (read_options one_gpu (rgbs 64 48) ((only_clip (Clip (rgbs 64 48)))\<lparr>arg_noise := Some 4, arg_tile_w := Some 16\<rparr>)))
     = Some NoiseRange \<and>
   fst (waifu2xCreate one_gpu ((only_clip (Clip (rgbs 64 48)))\<lparr>arg_noise := Some 4, arg_tile_w := Some 16\<rparr>) idle)
     = Failed (Thrown NoiseRange) \<and>
   error_text (Thrown NoiseRange) = Some ''waifu2x-ncnn-Vulkan: noise must be between -1 and 3 (inclusive)'' \<and>
   fst (waifu2xCreate one_gpu ((only_clip (Clip (rgbs 64 48)))\<lparr>arg_scale := Some 1, arg_model := Some 0\<rparr>) idle)
     = Failed (Thrown OnlyCunetScale1) \<and>
   fst (waifu2xCreate one_gpu ((only_clip (Clip (rgbs 64 48)))\<lparr>arg_tile_w := Some 16\<rparr>) idle)
     = Failed (Thrown TileWidth) \<and>
   first_violated (spec_constraints one_gpu
      (read_options one_gpu (rgbs 64 48) ((only_clip (Clip (rgbs 64 48)))\<lparr>arg_gpu_thread := Some 5\<rparr>)))
     = Some (GpuThreadRange 4) \<and>
   failed (fst (waifu2xCreate one_gpu ((only_clip (Clip (rgbs 64 48)))\<lparr>arg_gpu_thread := Some 5\<rparr>) idle)) \<and>
   created (fst (waifu2xCreate one_gpu ((only_clip (Clip (rgbs 64 48)))\<lparr>arg_gpu_thread := Some 5\<rparr>) idle)) = None"
proof -
  let ?c = "only_clip (Clip (rgbs 64 48))"
  have v: "rgbs 64 48 = getVideoInfo (arg_clip (?c\<lparr>arg_noise := Some 4, arg_tile_w := Some 16\<rparr>))"
    "rgbs 64 48 = getVideoInfo (arg_clip (?c\<lparr>arg_scale := Some 1, arg_model := Some 0\<rparr>))"
    "rgbs 64 48 = getVideoInfo (arg_clip (?c\<lparr>arg_tile_w := Some 16\<rparr>))"
    "rgbs 64 48 = getVideoInfo (arg_clip (?c\<lparr>arg_gpu_thread := Some 5\<rparr>))"
    by code_simp+
  have f1: "first_violated (spec_constraints one_gpu
      (read_options one_gpu (rgbs 64 48) (?c\<lparr>arg_noise := Some 4, arg_tile_w := Some 16\<rparr>))) = Some NoiseRange"
    by code_simp
  have f2: "first_violated (spec_constraints one_gpu
      (read_options one_gpu (rgbs 64 48) (?c\<lparr>arg_scale := Some 1, arg_model := Some 0\<rparr>))) = Some OnlyCunetScale1"
    by code_simp
  have f3: "first_violated (spec_constraints one_gpu
      (read_options one_gpu (rgbs 64 48) (?c\<lparr>arg_tile_w := Some 16\<rparr>))) = Some TileWidth"
    by code_simp
  have f4: "first_violated (spec_constraints one_gpu
      (read_options one_gpu (rgbs 64 48) (?c\<lparr>arg_gpu_thread := Some 5\<rparr>))) = Some (GpuThreadRange 4)"
    by code_simp
  have u: "\<not> unsupported_input (rgbs 64 48)" by code_simp
  have g: "gpu_instance_available one_gpu" by code_simp
  from validation_order [OF v(1) refl f1, of idle] validation_order [OF v(2) refl f2, of idle]
    validation_order [OF v(3) refl f3, of idle] validation_order [OF v(4) refl f4, of idle] f1 f4 u g
  show ?thesis by simp
qed

text \<open>
  C6. For every call that creates a filter, the model is 0, 1 or 2 and the engine's
  padding is 7 for models 0 and 1, and for model 2 it is 18 when noise is \<open>-1\<close> or
  scale is 2 and 28 otherwise; this is the value that the \<open>switch\<close> of lines 214 to
  227 computes.
\<close>

theorem padding_by_variant:
  assumes "p = read_options env (getVideoInfo (arg_clip a)) a"
    and "fst (waifu2xCreate env a s) = Created d"
  shows "(model p = 0 \<or> model p = 1 \<or> model p = 2) \<and>
         w2x_prepadding (waifu2x d) = spec_padding (model p) (noise p) (scale p) \<and>
         w2x_prepadding (waifu2x d) =
           (if model p = 0 \<or> model p = 1 then 7 else if noise p = - 1 \<or> scale p = 2 then 18 else 28) \<and>
         snd (select_model (models_root env) (model p) (noise p) (scale p)) =
           spec_padding (model p) (noise p) (scale p)"
proof -
  have m: "model p = 0 \<or> model p = 1 \<or> model p = 2"
    using validate_None_D(6) [OF created_reaches_build(3) [OF assms(2)]] assms(1) by simp
  have "w2x_prepadding (waifu2x d) = snd (select_model (models_root env) (model p) (noise p) (scale p))"
    using build_filter_Inr_D(10) [OF created_reaches_build(6) [OF assms(2)]] assms(1) by simp
  with m show ?thesis
    by (auto simp: select_model_validated spec_padding_def)
qed

theorem padding_by_variant_witness:
  "map_option (w2x_prepadding \<circ> waifu2x)
     (created (fst (waifu2xCreate one_gpu ((only_clip (Clip (rgbs 64 48)))\<lparr>arg_noise := Some 2, arg_scale := Some 1\<rparr>) idle)))
     = Some 28"
proof -
  let ?a = "(only_clip (Clip (rgbs 64 48)))\<lparr>arg_noise := Some 2, arg_scale := Some 1\<rparr>"
  have "created (fst (waifu2xCreate one_gpu ?a idle)) \<noteq> None" by code_simp
  then obtain d where h: "fst (waifu2xCreate one_gpu ?a idle) = Created d"
    by (cases "fst (waifu2xCreate one_gpu ?a idle)") auto
  have p: "model (read_options one_gpu (getVideoInfo (arg_clip ?a)) ?a) = 2"
    "noise (read_options one_gpu (getVideoInfo (arg_clip ?a)) ?a) = 2"
    "scale (read_options one_gpu (getVideoInfo (arg_clip ?a)) ?a) = 1"
    by code_simp+
  from padding_by_variant [OF refl h] p h show ?thesis by simp
qed

text \<open>
  C7. For every call that reaches line 229, the two weight files lie in the directory
  of the model variant and are named from noise and scale: \<open>scale2.0x_model\<close> when
  noise is \<open>-1\<close>, else \<open>noise<level>_model\<close> when scale is 1, else
  \<open>noise<level>_scale2.0x_model\<close>, with the extensions \<open>param\<close> and \<open>bin\<close>. A created
  filter's engine is loaded from these two paths; a call that fails to load the model
  found the \<open>param\<close> file of that name unreadable.
\<close>

theorem weight_files_by_noise_and_scale:
  assumes "p = read_options env (getVideoInfo (arg_clip a)) a"
    and "dir = spec_variant_dir (models_root env) (model p)"
  shows "(fst (waifu2xCreate env a s) = Created d \<longrightarrow>
            w2x_parampath (waifu2x d) = spec_artifact dir (noise p) (scale p) ''param'' \<and>
            w2x_modelpath (waifu2x d) = spec_artifact dir (noise p) (scale p) ''bin'' \<and>
            is_open env (spec_artifact dir (noise p) (scale p) ''param'')) \<and>
         (fst (waifu2xCreate env a s) = Failed (Thrown ModelLoad) \<longrightarrow>
            \<not> is_open env (spec_artifact dir (noise p) (scale p) ''param''))"
proof (intro conjI impI)
  assume c: "fst (waifu2xCreate env a s) = Created d"
  note val = created_reaches_build(3) [OF c, folded assms(1)]
  note b = created_reaches_build(6) [OF c, folded assms(1)]
  have sel: "select_model (models_root env) (model p) (noise p) (scale p) =
               (dir, spec_padding (model p) (noise p) (scale p))"
    using validate_None_D(6) [OF val] assms(2) by (simp add: select_model_validated)
  have mf: "model_files dir (noise p) (scale p) =
              (spec_artifact dir (noise p) (scale p) ''param'', spec_artifact dir (noise p) (scale p) ''bin'')"
    using validate_None_D(1,2) [OF val] by (rule model_files_validated)
  show "w2x_parampath (waifu2x d) = spec_artifact dir (noise p) (scale p) ''param''"
    using build_filter_Inr_D(11) [OF b] sel mf by simp
  show "w2x_modelpath (waifu2x d) = spec_artifact dir (noise p) (scale p) ''bin''"
    using build_filter_Inr_D(12) [OF b] sel mf by simp
  show "is_open env (spec_artifact dir (noise p) (scale p) ''param'')"
    using build_filter_Inr_D(13) [OF b] build_filter_Inr_D(11) [OF b] sel mf by simp
next
  assume f: "fst (waifu2xCreate env a s) = Failed (Thrown ModelLoad)"
  note b = failed_ModelLoad_reaches_build [OF f, folded assms(1)]
  have val: "validate env p = None"
    using f assms(1) validate_not_ModelLoad [of env p]
    by (auto simp: waifu2xCreate_def try_block_def create_gpu_instance_def Let_def
             split: option.splits sum.splits if_splits)
  have sel: "select_model (models_root env) (model p) (noise p) (scale p) =
               (dir, spec_padding (model p) (noise p) (scale p))"
    using validate_None_D(6) [OF val] assms(2) by (simp add: select_model_validated)
  have mf: "model_files dir (noise p) (scale p) =
              (spec_artifact dir (noise p) (scale p) ''param'', spec_artifact dir (noise p) (scale p) ''bin'')"
    using validate_None_D(1,2) [OF val] by (rule model_files_validated)
  show "\<not> is_open env (spec_artifact dir (noise p) (scale p) ''param'')"
    using build_filter_Inl_D(2) [OF b] sel mf by simp
qed

theorem weight_files_by_noise_and_scale_witness:
  "map_option (\<lambda>d. (w2x_parampath (waifu2x d), w2x_modelpath (waifu2x d)))
     (created (fst (waifu2xCreate one_gpu ((only_clip (Clip (rgbs 64 48)))\<lparr>arg_noise := Some 2, arg_scale := Some 1\<rparr>) idle)))
     = Some (''/vs/plugins/models/models-cunet/noise2_model.param'',
             ''/vs/plugins/models/models-cunet/noise2_model.bin'') \<and>
   fst (waifu2xCreate one_gpu ((only_clip (Clip (rgbs 64 48)))\<lparr>arg_noise := Some 3\<rparr>) idle) = Failed (Thrown ModelLoad) \<and>
   \<not> is_open one_gpu ''/vs/plugins/models/models-cunet/noise3_scale2.0x_model.param''"
proof -
  let ?a = "(only_clip (Clip (rgbs 64 48)))\<lparr>arg_noise := Some 2, arg_scale := Some 1\<rparr>"
  let ?b = "(only_clip (Clip (rgbs 64 48)))\<lparr>arg_noise := Some 3\<rparr>"
  have "created (fst (waifu2xCreate one_gpu ?a idle)) \<noteq> None" by code_simp
  then obtain d where h: "fst (waifu2xCreate one_gpu ?a idle) = Created d"
    by (cases "fst (waifu2xCreate one_gpu ?a idle)") auto
  have pa: "spec_artifact (spec_variant_dir (models_root one_gpu)
                (model (read_options one_gpu (getVideoInfo (arg_clip ?a)) ?a)))
              (noise (read_options one_gpu (getVideoInfo (arg_clip ?a)) ?a))
              (scale (read_options one_gpu (getVideoInfo (arg_clip ?a)) ?a)) ''param''
            = ''/vs/plugins/models/models-cunet/noise2_model.param''"
    by code_simp
  have pb: "spec_artifact (spec_variant_dir (models_root one_gpu)
                (model (read_options one_gpu (getVideoInfo (arg_clip ?a)) ?a)))
              (noise (read_options one_gpu (getVideoInfo (arg_clip ?a)) ?a))
              (scale (read_options one_gpu (getVideoInfo (arg_clip ?a)) ?a)) ''bin''
            = ''/vs/plugins/models/models-cunet/noise2_model.bin''"
    by code_simp
  have f: "fst (waifu2xCreate one_gpu ?b idle) = Failed (Thrown ModelLoad)" by code_simp
  have pc: "spec_artifact (spec_variant_dir (models_root one_gpu)
                (model (read_options one_gpu (getVideoInfo (arg_clip ?b)) ?b)))
              (noise (read_options one_gpu (getVideoInfo (arg_clip ?b)) ?b))
              (scale (read_options one_gpu (getVideoInfo (arg_clip ?b)) ?b)) ''param''
            = ''/vs/plugins/models/models-cunet/noise3_scale2.0x_model.param''"
    by code_simp
  from weight_files_by_noise_and_scale [OF refl refl, of one_gpu ?a idle d]
    weight_files_by_noise_and_scale [OF refl refl, of one_gpu ?b idle d] h f
  show ?thesis unfolding pa pb pc by simp
qed

text \<open>
  C8. As stated (an absent \<open>tile_w\<close>, \<open>tile_h\<close> resolves to the frame width, height)
  the claim fails for a frame smaller than 32: lines 120 and 124 take
  \<open>std::max(dimension, 32)\<close>. A 16 by 16 clip gets 32 by 32 tiles.
\<close>

theorem tile_default_small_frame_counterexample:
  "arg_tile_w (only_clip (Clip (rgbs 16 16))) = None \<and>
   arg_tile_h (only_clip (Clip (rgbs 16 16))) = None \<and>
   width (getVideoInfo (arg_clip (only_clip (Clip (rgbs 16 16))))) = 16 \<and>
   height (getVideoInfo (arg_clip (only_clip (Clip (rgbs 16 16))))) = 16 \<and>
   tile_w (read_options one_gpu (rgbs 16 16) (only_clip (Clip (rgbs 16 16)))) = 32 \<and>
   tile_h (read_options one_gpu (rgbs 16 16) (only_clip (Clip (rgbs 16 16)))) = 32 \<and>
   map_option (w2x_tile_w \<circ> waifu2x) (created (fst (waifu2xCreate one_gpu (only_clip (Clip (rgbs 16 16))) idle))) = Some 32 \<and>
   map_option (w2x_tile_h \<circ> waifu2x) (created (fst (waifu2xCreate one_gpu (only_clip (Clip (rgbs 16 16))) idle))) = Some 32"
  by code_simp

text \<open>
  C8, amended. When \<open>tile_w\<close> (respectively \<open>tile_h\<close>) is not supplied, it resolves to
  the larger of the source frame width (respectively height) and 32, hence to the frame
  width (height) when that is at least 32; the engine of a created filter gets this
  value.
\<close>

theorem tile_defaults:
  assumes "v = getVideoInfo (arg_clip a)" and "p = read_options env v a"
  shows "(arg_tile_w a = None \<longrightarrow>
            tile_w p = max (width v) 32 \<and> (32 \<le> width v \<longrightarrow> tile_w p = width v) \<and>
            (fst (waifu2xCreate env a s) = Created d \<longrightarrow> w2x_tile_w (waifu2x d) = max (width v) 32)) \<and>
         (arg_tile_h a = None \<longrightarrow>
            tile_h p = max (height v) 32 \<and> (32 \<le> height v \<longrightarrow> tile_h p = height v) \<and>
            (fst (waifu2xCreate env a s) = Created d \<longrightarrow> w2x_tile_h (waifu2x d) = max (height v) 32))"
proof -
  have w: "tile_w p = max (width v) 32" if "arg_tile_w a = None"
    using that assms(2) by (simp add: read_options_def mapGetIntSaturated_def mapGetInt_def)
  have h: "tile_h p = max (height v) 32" if "arg_tile_h a = None"
    using that assms(2) by (simp add: read_options_def mapGetIntSaturated_def mapGetInt_def)
  have ew: "w2x_tile_w (waifu2x d) = tile_w p" and eh: "w2x_tile_h (waifu2x d) = tile_h p"
    if "fst (waifu2xCreate env a s) = Created d"
    using build_filter_Inr_D(8,9) [OF created_reaches_build(6) [OF that]] assms by simp_all
  from w h ew eh show ?thesis by auto
qed

theorem tile_defaults_witness:
  "arg_tile_w (only_clip (Clip (rgbs 20 48))) = None \<and>
   arg_tile_h (only_clip (Clip (rgbs 20 48))) = None \<and>
   map_option (\<lambda>d. (w2x_tile_w (waifu2x d), w2x_tile_h (waifu2x d)))
     (created (fst (waifu2xCreate one_gpu (only_clip (Clip (rgbs 20 48))) idle))) = Some (32, 48)"
proof -
  let ?a = "only_clip (Clip (rgbs 20 48))"
  have n: "arg_tile_w ?a = None" "arg_tile_h ?a = None" by code_simp+
  have v: "rgbs 20 48 = getVideoInfo (arg_clip ?a)" by code_simp
  have wh: "width (rgbs 20 48) = 20" "height (rgbs 20 48) = 48" by code_simp+
  have "created (fst (waifu2xCreate one_gpu ?a idle)) \<noteq> None" by code_simp
  then obtain d where h: "fst (waifu2xCreate one_gpu ?a idle) = Created d"
    by (cases "fst (waifu2xCreate one_gpu ?a idle)") auto
  from tile_defaults [OF v refl, of one_gpu idle d] n h wh
  show ?thesis by simp
qed

text \<open>
  C9. As stated (with \<open>list_gpu\<close> set and validation passing, the output is the text
  enumeration) the claim fails when invoking the text plugin ends in an error: lines
  176 to 185 then hand that error on instead of a clip.
\<close>

theorem list_gpu_text_failure_counterexample:
  "\<not> unsupported_input (rgbs 64 48) \<and>
   gpu_instance_available (one_gpu\<lparr>text_plugin_error := Some ''Text: failure''\<rparr>) \<and>
   validate (one_gpu\<lparr>text_plugin_error := Some ''Text: failure''\<rparr>)
     (read_options (one_gpu\<lparr>text_plugin_error := Some ''Text: failure''\<rparr>) (rgbs 64 48)
        ((only_clip (Clip (rgbs 64 48)))\<lparr>arg_list_gpu := Some 1\<rparr>)) = None \<and>
   waifu2xCreate (one_gpu\<lparr>text_plugin_error := Some ''Text: failure''\<rparr>)
     ((only_clip (Clip (rgbs 64 48)))\<lparr>arg_list_gpu := Some 1\<rparr>) idle
     = (Failed (InvokeError ''Text: failure''), idle) \<and>
   fst (waifu2xCreate (one_gpu\<lparr>text_plugin_error := Some ''Text: failure''\<rparr>)
     ((only_clip (Clip (rgbs 64 48)))\<lparr>arg_list_gpu := Some 1\<rparr>) idle)
     \<noteq> Forwarded (TextOverlay (Clip (rgbs 64 48)) (''0: GPU A'' @ [CHR 0x0A]))"
  by code_simp

text \<open>
  C9, amended. With \<open>list_gpu\<close> set, the clip format accepted, the GPU instance created
  and every option check passed, construction short-circuits: no filter (hence no
  engine) is created, the count is what it was before the call and the GPU instance is
  destroyed exactly when that count is zero; the output is the node that the text
  plugin returns for the source clip and the text listing every device, one line
  \<open>index: name\<close> per device, when that invocation succeeds, and the invocation's error
  when it fails.
\<close>

theorem list_gpu_short_circuit:
  assumes "v = getVideoInfo (arg_clip a)" and "p = read_options env v a"
    and "\<not> unsupported_input v" and "gpu_instance_available env" and "validate env p = None"
    and "fst (mapGetInt (arg_list_gpu a)) \<noteq> 0"
  shows "fst (waifu2xCreate env a s) =
           (case text_plugin_error env of
              None \<Rightarrow> Forwarded (TextOverlay (arg_clip a) (gpu_listing env))
            | Some m \<Rightarrow> Failed (InvokeError m)) \<and>
         gpu_listing env =
           concat (map (\<lambda>(i, g). to_string (int i) @ '': '' @ device_name g @ [CHR 0x0A])
                       (enumerate 0 (gpus env))) \<and>
         created (fst (waifu2xCreate env a s)) = None \<and>
         numGPUInstances (snd (waifu2xCreate env a s)) = numGPUInstances s \<and>
         gpu_instance (snd (waifu2xCreate env a s)) = (numGPUInstances s \<noteq> 0)"
proof -
  have "waifu2xCreate env a s =
          (case text_plugin_error env of
             None \<Rightarrow> Forwarded (TextOverlay (arg_clip a) (gpu_listing env))
           | Some m \<Rightarrow> Failed (InvokeError m),
           s\<lparr>gpu_instance := (numGPUInstances s \<noteq> 0)\<rparr>)"
    using assms
    by (simp add: create_after_acquire dec_after_inc invoke_Text_def Let_def split: option.split)
  then show ?thesis
    using gpu_listing_enumerate [of env] by (simp split: option.split)
qed

theorem list_gpu_short_circuit_witness:
  "waifu2xCreate one_gpu ((only_clip (Clip (rgbs 64 48)))\<lparr>arg_list_gpu := Some 1\<rparr>) idle
     = (Forwarded (TextOverlay (Clip (rgbs 64 48)) (''0: GPU A'' @ [CHR 0x0A])), idle)"
proof -
  let ?a = "(only_clip (Clip (rgbs 64 48)))\<lparr>arg_list_gpu := Some 1\<rparr>"
  have v: "rgbs 64 48 = getVideoInfo (arg_clip ?a)" by code_simp
  have u: "\<not> unsupported_input (rgbs 64 48)" by code_simp
  have g: "gpu_instance_available one_gpu" by code_simp
  have val: "validate one_gpu (read_options one_gpu (rgbs 64 48) ?a) = None" by code_simp
  have l: "fst (mapGetInt (arg_list_gpu ?a)) \<noteq> 0" by code_simp
  have t: "text_plugin_error one_gpu = None" by code_simp
  have c: "arg_clip ?a = Clip (rgbs 64 48)" by code_simp
  have e: "gpu_listing one_gpu = ''0: GPU A'' @ [CHR 0x0A]" by code_simp
  from list_gpu_short_circuit [OF v refl u g val l, of idle]
  show ?thesis
    unfolding t c e by (cases "waifu2xCreate one_gpu ?a idle") (auto simp: idle_def)
qed

text \<open>
  C10. For every call that creates a filter, the engine is constructed with a thread
  count of 1, whatever \<open>gpu_thread\<close> is; \<open>gpu_thread\<close>, which lies between 1 and the
  device's compute queue count, is the number of permits of the semaphore.
\<close>

theorem engine_threads_is_one:
  assumes "fst (waifu2xCreate env a s) = Created d"
    and "p = read_options env (getVideoInfo (arg_clip a)) a"
  shows "w2x_num_threads (waifu2x d) = 1 \<and> semaphore d = gpuThread p \<and>
         1 \<le> gpuThread p \<and>
         gpuThread p \<le> int (compute_queue_count (get_gpu_info env (gpuId p)))"
proof -
  note b = created_reaches_build(6) [OF assms(1), folded assms(2)]
  note val = created_reaches_build(3) [OF assms(1), folded assms(2)]
  have "gpuThread p \<le> 2147483647"
    using assms(2) by (simp add: read_options_gpuThread_int)
  with validate_None_D(10,11) [OF val]
  have "1 \<le> gpuThread p" "gpuThread p \<le> int (compute_queue_count (get_gpu_info env (gpuId p)))"
    by simp_all
  with build_filter_Inr_D(3,4) [OF b] show ?thesis by simp
qed

theorem engine_threads_is_one_witness:
  "map_option (\<lambda>d. (w2x_num_threads (waifu2x d), semaphore d))
     (created (fst (waifu2xCreate one_gpu ((only_clip (Clip (rgbs 64 48)))\<lparr>arg_gpu_thread := Some 3\<rparr>) idle)))
     = Some (1, 3)"
proof -
  let ?a = "(only_clip (Clip (rgbs 64 48)))\<lparr>arg_gpu_thread := Some 3\<rparr>"
  have "created (fst (waifu2xCreate one_gpu ?a idle)) \<noteq> None" by code_simp
  then obtain d where h: "fst (waifu2xCreate one_gpu ?a idle) = Created d"
    by (cases "fst (waifu2xCreate one_gpu ?a idle)") auto
  have g: "gpuThread (read_options one_gpu (getVideoInfo (arg_clip ?a)) ?a) = 3" by code_simp
  from engine_threads_is_one [OF h refl] g h show ?thesis by simp
qed

end
